theory Spec2Isabelle
  imports Main "HOL-Library.Word"
begin

section \<open>Go values: errors, outcomes, API objects\<close>

text \<open>
  A Go \<open>error\<close> is modelled by what the program can observe of it: the two predicates
  the source applies (\<open>k8sErrors.IsNotFound\<close>, \<open>os.IsNotExist\<close>), kept as a kind tag,
  and its text. \<open>fmt.Errorf\<close> renders its arguments into a fresh error that carries
  neither tag (the source uses \<open>%v\<close> and \<open>%s\<close>, never \<open>%w\<close>).
\<close>

datatype error_kind = PlainError | NotFound | NotExist

datatype error = Error error_kind string

fun error_text :: "error \<Rightarrow> string" where
  "error_text (Error k t) = t"

fun k8sErrors_IsNotFound :: "error \<Rightarrow> bool" where
  "k8sErrors_IsNotFound (Error k t) = (k = NotFound)"

text \<open>\<open>os.IsNotExist\<close> takes a possibly nil error; nil is not a not-exist error.\<close>

fun os_IsNotExist :: "error option \<Rightarrow> bool" where
  "os_IsNotExist None = False"
| "os_IsNotExist (Some (Error k t)) = (k = NotExist)"

definition fmt_Errorf :: "string \<Rightarrow> error" where
  "fmt_Errorf t = Error PlainError t"

text \<open>A call either returns or panics (a nil dereference in the source).\<close>

datatype 'a outcome = Returned 'a | Panicked

record FileInfo =
  IsDir :: bool

record CloneOptions =
  URL :: string
  ReferenceName :: string

record RemoteConfig =
  Name :: string
  URLs :: "string list"

text \<open>Handles of go-git objects; a nil pointer is \<open>None\<close> where a handle is expected.\<close>

datatype Repository = Repository nat

datatype Remote = Remote nat

text \<open>
  Cluster objects. The fields the source reads or writes are explicit; every other field
  of the object is kept in one component of arbitrary type \<open>'o\<close>. For a secret built by
  a struct literal that component is \<open>None\<close>: all remaining fields hold their zero value.
\<close>

record Namespace =
  Namespace_Name :: string

record 'o Secret =
  Secret_Name :: string
  Secret_Namespace :: string
  Secret_Type :: string
  Secret_Data :: "string \<rightharpoonup> string"
  Secret_Rest :: "'o option"

record 'o Deployment =
  Annotations :: "(string \<rightharpoonup> string) option"
  Replicas :: "32 word option"
  Deployment_Rest :: 'o

definition DockerConfigJsonKey :: string where
  "DockerConfigJsonKey = ''.dockerconfigjson''"

definition SecretTypeDockerConfigJson :: string where
  "SecretTypeDockerConfigJson = ''kubernetes.io/dockerconfigjson''"

definition MergePatchType :: string where
  "MergePatchType = ''application/merge-patch+json''"

section \<open>The process and its collaborators\<close>

text \<open>
  Every interaction with the outside (file system, git, child process, cluster API, log,
  random source, clock) is recorded as an event, in program order.
\<close>

datatype 'o event =
    OsStat string
  | OsRemoveAll string
  | KlogWarning string
  | KlogInfo string
  | KlogError string
  | GitPlainClone string bool CloneOptions
  | CreateRemote "Repository option" RemoteConfig
  | GenerateRandomString nat
  | ExecuteCommand string "string list" string
  | NamespacesGet string
  | NamespacesCreate Namespace
  | SecretsGet string string
  | SecretsCreate string "'o Secret"
  | SecretsUpdate string "'o Secret"
  | ConfigMapsPatch string string string string
  | KubeRestGet string string
  | TimeNow
  | DeploymentsUpdate string "'o Deployment"

text \<open>
  The state of the process: its environment variables and the events so far.
\<close>

record 'o state =
  env :: "string \<rightharpoonup> string"
  trace :: "'o event list"

definition emit :: "'o event \<Rightarrow> 'o state \<Rightarrow> 'o state" where
  "emit e s = s\<lparr>trace := trace s @ [e]\<rparr>"

text \<open>
  The collaborators are parameters. Each answers a call as a function of the events so
  far, so an answer may depend on everything that happened before (a cluster or a file
  system with state, a random source, a clock); the child process also sees the
  environment it inherits. \<open>Repository_CreateRemote\<close> receives the pointer as the
  source passes it, nil included, and may panic. \<open>utils_ExecuteCommandInASpecificDirectory\<close>
  (package \<open>pkg/utils\<close>) returns an error when the command fails, and the two names of
  package \<open>pkg/constants\<close> that the source uses are fields as well.
\<close>

record 'o host =
  os_Stat :: "'o event list \<Rightarrow> string \<Rightarrow> FileInfo option \<times> error option"
  os_RemoveAll :: "'o event list \<Rightarrow> string \<Rightarrow> error option"
  git_PlainClone ::
    "'o event list \<Rightarrow> string \<Rightarrow> bool \<Rightarrow> CloneOptions \<Rightarrow> Repository option \<times> error option"
  Repository_CreateRemote ::
    "'o event list \<Rightarrow> Repository option \<Rightarrow> RemoteConfig \<Rightarrow> (Remote option \<times> error option) outcome"
  util_GenerateRandomString :: "'o event list \<Rightarrow> nat \<Rightarrow> string"
  utils_ExecuteCommandInASpecificDirectory ::
    "'o event list \<Rightarrow> (string \<rightharpoonup> string) \<Rightarrow> string \<Rightarrow> string list \<Rightarrow> string \<Rightarrow> error option"
  base64_DecodeString :: "string \<Rightarrow> string \<times> error option"
  time_Now_RFC3339 :: "'o event list \<Rightarrow> string"
  QuayRepositorySecretNamespace :: string
  QuayRepositorySecretName :: string

text \<open>
  The cluster client held by the controller: the calls the source makes through
  \<open>KubeInterface()\<close> and \<open>KubeRest()\<close>. A typed \<open>Get\<close> returns the object pointer
  together with the error, as in Go; the source reads the pointer of a failed secret
  \<open>Get\<close>, so both are kept.
\<close>

record 'o CustomClient =
  Namespaces_Get :: "'o event list \<Rightarrow> string \<Rightarrow> error option"
  Namespaces_Create :: "'o event list \<Rightarrow> Namespace \<Rightarrow> error option"
  Secrets_Get :: "'o event list \<Rightarrow> string \<Rightarrow> string \<Rightarrow> 'o Secret option \<times> error option"
  Secrets_Create :: "'o event list \<Rightarrow> string \<Rightarrow> 'o Secret \<Rightarrow> error option"
  Secrets_Update :: "'o event list \<Rightarrow> string \<Rightarrow> 'o Secret \<Rightarrow> error option"
  ConfigMaps_Patch :: "'o event list \<Rightarrow> string \<Rightarrow> string \<Rightarrow> string \<Rightarrow> string \<Rightarrow> error option"
  KubeRest_Get :: "'o event list \<Rightarrow> string \<Rightarrow> string \<Rightarrow> error + 'o Deployment"
  Deployments_Update :: "'o event list \<Rightarrow> string \<Rightarrow> 'o Deployment \<Rightarrow> error option"

text \<open>
  The controller (struct \<open>InstallAppStudio\<close>). The client pointer is taken to be valid,
  as the constructor returns no controller without one.
\<close>

record 'o InstallAppStudio =
  KubernetesClient :: "'o CustomClient"
  TmpDirectory :: string
  InfraDeploymentsCloneDir :: string
  InfraDeploymentsBranch :: string
  InfraDeploymentsOrganizationName :: string
  LocalForkName :: string
  LocalGithubForkOrganization :: string
  E2EApplicationsNamespace :: string
  QuayToken :: string
  DefaultImageQuayOrg :: string
  DefaultImageQuayOrgOAuth2Token :: string
  DefaultImageTagExpiration :: string

definition previewInstallArgs :: "string list" where
  "previewInstallArgs = [''preview'', ''--keycloak'', ''--toolchain'']"

section \<open>Environment variables\<close>

text \<open>\<open>os.Getenv\<close>: the value, or the empty string when the variable is unset.\<close>

definition os_Getenv :: "(string \<rightharpoonup> string) \<Rightarrow> string \<Rightarrow> string" where
  "os_Getenv e key = (case e key of None \<Rightarrow> [] | Some v \<Rightarrow> v)"

text \<open>
  \<open>os.Setenv\<close> (Unix): an empty key, a key with \<open>=\<close> or NUL, or a value with NUL is
  refused with an error and the environment is left as it was.
\<close>

definition os_Setenv ::
  "string \<Rightarrow> string \<Rightarrow> (string \<rightharpoonup> string) \<Rightarrow> error option \<times> (string \<rightharpoonup> string)" where
  "os_Setenv key val e =
     (if key = [] \<or> CHR ''='' \<in> set key \<or> CHR 0x00 \<in> set key \<or> CHR 0x00 \<in> set val
      then (Some (Error PlainError ''setenv: invalid argument''), e)
      else (None, e(key \<mapsto> val)))"

text \<open>
  Modelled from the spec: \<open>utils.GetEnv\<close> (package \<open>pkg/utils\<close>) is not among the
  sources. The spec has values "populated from environment variables with defaults":
  the variable's value when it has one, the default otherwise. Every call in the
  modelled functions passes the empty string as default, where an unset and an empty
  variable give the same result.
\<close>

definition GetEnv :: "(string \<rightharpoonup> string) \<Rightarrow> string \<Rightarrow> string \<Rightarrow> string" where
  "GetEnv e key defaultVal =
     (let v = os_Getenv e key in if v \<noteq> [] then v else defaultVal)"

section \<open>The installation steps\<close>

text \<open>
  \<open>setInstallationEnvironments\<close>: ten \<open>os.Setenv\<close> calls in source order, each error
  discarded; the fourth value is drawn from the random source.
\<close>

definition setInstallationEnvironments ::
  "'o InstallAppStudio \<Rightarrow> 'o host \<Rightarrow> 'o state \<Rightarrow> 'o state" where
  "setInstallationEnvironments i h s =
     (let e1 = snd (os_Setenv ''MY_GITHUB_ORG'' (LocalGithubForkOrganization i) (env s));
          e2 = snd (os_Setenv ''MY_GITHUB_TOKEN'' (GetEnv e1 ''GITHUB_TOKEN'' []) e1);
          e3 = snd (os_Setenv ''MY_GIT_FORK_REMOTE'' (LocalForkName i) e2);
          r = util_GenerateRandomString h (trace s) 4;
          e4 = snd (os_Setenv ''TEST_BRANCH_ID'' r e3);
          e5 = snd (os_Setenv ''QUAY_TOKEN'' (QuayToken i) e4);
          e6 = snd (os_Setenv ''IMAGE_CONTROLLER_QUAY_ORG'' (DefaultImageQuayOrg i) e5);
          e7 = snd (os_Setenv ''IMAGE_CONTROLLER_QUAY_TOKEN'' (DefaultImageQuayOrgOAuth2Token i) e6);
          e8 = snd (os_Setenv ''BUILD_SERVICE_IMAGE_TAG_EXPIRATION'' (DefaultImageTagExpiration i) e7);
          e9 = snd (os_Setenv ''PAC_GITHUB_APP_ID'' (GetEnv e8 ''E2E_PAC_GITHUB_APP_ID'' []) e8);
          e10 = snd (os_Setenv ''PAC_GITHUB_APP_PRIVATE_KEY''
                       (GetEnv e9 ''E2E_PAC_GITHUB_APP_PRIVATE_KEY'' []) e9)
      in s\<lparr>env := e10, trace := trace s @ [GenerateRandomString 4]\<rparr>)"

text \<open>
  \<open>cloneInfraDeployments\<close>, lines 131 to 140: the check of the clone directory.
  \<open>dirInfo.IsDir()\<close> is evaluated whenever the error is not a not-exist error, on a nil
  \<open>dirInfo\<close> as well, which panics.
\<close>

definition removeExistingCloneDir ::
  "'o InstallAppStudio \<Rightarrow> 'o host \<Rightarrow> 'o state \<Rightarrow> error option outcome \<times> 'o state" where
  "removeExistingCloneDir i h s =
     (let dir = InfraDeploymentsCloneDir i;
          (dirInfo, err) = os_Stat h (trace s) dir;
          s1 = emit (OsStat dir) s
      in if os_IsNotExist err then (Returned None, s1)
         else (case dirInfo of
                 None \<Rightarrow> (Panicked, s1)
               | Some fi \<Rightarrow>
                   if IsDir fi then
                     (let s2 = emit (KlogWarning (''folder '' @ dir @ '' already exists... removing'')) s1;
                          err2 = os_RemoveAll h (trace s2) dir;
                          s3 = emit (OsRemoveAll dir) s2
                      in (case err2 of
                            Some e \<Rightarrow>
                              (Returned (Some (fmt_Errorf (''error removing '' @ dir @ '' folder''))), s3)
                          | None \<Rightarrow> (Returned None, s3)))
                   else (Returned None, s1)))"

text \<open>
  The values \<open>cloneInfraDeployments\<close> builds with \<open>fmt.Sprintf\<close>: the clone URL, the
  reference name, the log line, the clone options (\<open>Progress: os.Stdout\<close> only directs
  go-git's progress output and is left out) and the configuration of the fork remote.
\<close>

definition cloneURL :: "'o InstallAppStudio \<Rightarrow> string" where
  "cloneURL i = ''https://github.com/'' @ InfraDeploymentsOrganizationName i @ ''/infra-deployments''"

definition cloneRefName :: "'o InstallAppStudio \<Rightarrow> string" where
  "cloneRefName i = ''refs/heads/'' @ InfraDeploymentsBranch i"

definition cloneLogLine :: "'o InstallAppStudio \<Rightarrow> string" where
  "cloneLogLine i =
     ''cloning '' @ [CHR 0x27] @ cloneURL i @ [CHR 0x27] @ '' with git ref ''
     @ [CHR 0x27] @ cloneRefName i @ [CHR 0x27]"

definition cloneOptions :: "'o InstallAppStudio \<Rightarrow> CloneOptions" where
  "cloneOptions i = \<lparr>URL = cloneURL i, ReferenceName = cloneRefName i\<rparr>"

definition forkRemoteConfig :: "'o InstallAppStudio \<Rightarrow> RemoteConfig" where
  "forkRemoteConfig i =
     \<lparr>Name = LocalForkName i,
      URLs = [''https://github.com/'' @ LocalGithubForkOrganization i @ ''/infra-deployments.git'']\<rparr>"

text \<open>
  \<open>cloneInfraDeployments\<close>, the whole function: after the directory check, the clone
  (its error is bound to \<open>_\<close>) and \<open>repo.CreateRemote\<close> on whatever pointer the clone
  returned; the result of \<open>CreateRemote\<close> is the result of the function.
\<close>

definition cloneInfraDeployments ::
  "'o InstallAppStudio \<Rightarrow> 'o host \<Rightarrow> 'o state \<Rightarrow> (Remote option \<times> error option) outcome \<times> 'o state" where
  "cloneInfraDeployments i h s =
     (case removeExistingCloneDir i h s of
        (Panicked, s1) \<Rightarrow> (Panicked, s1)
      | (Returned (Some e), s1) \<Rightarrow> (Returned (None, Some e), s1)
      | (Returned None, s1) \<Rightarrow>
          (let s2 = emit (KlogInfo (cloneLogLine i)) s1;
               (repo, clone_err) =
                  git_PlainClone h (trace s2) (InfraDeploymentsCloneDir i) False (cloneOptions i);
               s3 = emit (GitPlainClone (InfraDeploymentsCloneDir i) False (cloneOptions i)) s2
           in (Repository_CreateRemote h (trace s3) repo (forkRemoteConfig i),
               emit (CreateRemote repo (forkRemoteConfig i)) s3)))"

text \<open>
  \<open>createE2EQuaySecret\<close>. The token is read from the environment, not from the
  controller. The update branch is the \<open>else\<close> of \<open>IsNotFound\<close> inside
  \<open>if err != nil\<close>: it runs when the secret \<open>Get\<close> failed with another error, on
  the pointer that \<open>Get\<close> returned (a nil pointer panics at \<open>secret.Data = ...\<close>).
  When \<open>Get\<close> succeeds, control falls through to \<open>return nil\<close>.
\<close>

definition createE2EQuaySecret ::
  "'o InstallAppStudio \<Rightarrow> 'o host \<Rightarrow> 'o state \<Rightarrow> error option outcome \<times> 'o state" where
  "createE2EQuaySecret i h s =
     (let quayToken = os_Getenv (env s) ''QUAY_TOKEN'' in
      if quayToken = [] then
        (Returned (Some (fmt_Errorf
           (''failed to obtain quay token from '' @ [CHR 0x27] @ ''QUAY_TOKEN'' @ [CHR 0x27]
            @ '' env; make sure the env exists''))), s)
      else
        (case base64_DecodeString h quayToken of
           (decodedToken, Some derr) \<Rightarrow>
             (Returned (Some (fmt_Errorf
                ''failed to decode quay token. Make sure that QUAY_TOKEN env contain a base64 token'')), s)
         | (decodedToken, None) \<Rightarrow>
             (let k = KubernetesClient i;
                  namespace = QuayRepositorySecretNamespace h;
                  nsErr = Namespaces_Get k (trace s) namespace;
                  s1 = emit (NamespacesGet namespace) s;
                  nsStep =
                    (case nsErr of
                       None \<Rightarrow> (None, s1)
                     | Some err \<Rightarrow>
                         if k8sErrors_IsNotFound err then
                           (let ns = \<lparr>Namespace_Name = namespace\<rparr>;
                                cErr = Namespaces_Create k (trace s1) ns;
                                s2 = emit (NamespacesCreate ns) s1
                            in (case cErr of
                                  Some err2 \<Rightarrow>
                                    (Some (fmt_Errorf (''error when creating namespace '' @ namespace
                                             @ '' : '' @ error_text err2)), s2)
                                | None \<Rightarrow> (None, s2)))
                         else
                           (Some (fmt_Errorf (''error when getting namespace '' @ namespace
                                    @ '' : '' @ error_text err)), s1))
              in (case nsStep of
                    (Some e, s3) \<Rightarrow> (Returned (Some e), s3)
                  | (None, s3) \<Rightarrow>
                      (let secretName = QuayRepositorySecretName h;
                           (secret, err) = Secrets_Get k (trace s3) namespace secretName;
                           s4 = emit (SecretsGet namespace secretName) s3
                       in (case err of
                             None \<Rightarrow> (Returned None, s4)
                           | Some gerr \<Rightarrow>
                               if k8sErrors_IsNotFound gerr then
                                 (let new = \<lparr>Secret_Name = secretName,
                                             Secret_Namespace = namespace,
                                             Secret_Type = SecretTypeDockerConfigJson,
                                             Secret_Data = [DockerConfigJsonKey \<mapsto> decodedToken],
                                             Secret_Rest = None\<rparr>;
                                      cErr = Secrets_Create k (trace s4) namespace new;
                                      s5 = emit (SecretsCreate namespace new) s4
                                  in (case cErr of
                                        Some err2 \<Rightarrow>
                                          (Returned (Some (fmt_Errorf (''error when creating secret ''
                                             @ secretName @ '' : '' @ error_text err2))), s5)
                                      | None \<Rightarrow> (Returned None, s5)))
                               else
                                 (case secret of
                                    None \<Rightarrow> (Panicked, s4)
                                  | Some sec \<Rightarrow>
                                      (let sec2 = sec\<lparr>Secret_Data := [DockerConfigJsonKey \<mapsto> decodedToken]\<rparr>;
                                           uErr = Secrets_Update k (trace s4) namespace sec2;
                                           s5 = emit (SecretsUpdate namespace sec2) s4
                                       in (case uErr of
                                             Some err2 \<Rightarrow>
                                               (Returned (Some (fmt_Errorf (''error when updating secret ''
                                                  @ [CHR 0x27] @ secretName @ [CHR 0x27]
                                                  @ '' namespace: '' @ error_text err2))), s5)
                                           | None \<Rightarrow> (Returned None, s5))))))))))"

text \<open>
  \<open>DeepCopy\<close> gives a fresh object equal to its receiver; with values instead of
  pointers that is the receiver itself.
\<close>

definition DeepCopy :: "'o Deployment \<Rightarrow> 'o Deployment" where
  "DeepCopy d = d"

text \<open>
  The merge patch of the config map: the format string of the source with the URL in
  place of \<open>%s\<close> (\<open>CHR 0x22\<close> is the double quote).
\<close>

definition redirectPatchData :: "string \<Rightarrow> string" where
  "redirectPatchData url =
     ''{'' @ [CHR 0x22] @ ''data'' @ [CHR 0x22] @ '': {'' @ [CHR 0x22]
     @ ''OAUTH_REDIRECT_PROXY_URL'' @ [CHR 0x22] @ '': '' @ [CHR 0x22] @ url @ [CHR 0x22] @ ''}}''"

text \<open>
  \<open>addSPIOauthRedirectProxyUrl\<close>. It has no result; every failure ends in
  \<open>klog.Error\<close> and \<open>return\<close>.
\<close>

definition addSPIOauthRedirectProxyUrl ::
  "'o InstallAppStudio \<Rightarrow> 'o host \<Rightarrow> 'o state \<Rightarrow> unit outcome \<times> 'o state" where
  "addSPIOauthRedirectProxyUrl i h s =
     (let OauthRedirectProxyUrl = os_Getenv (env s) ''OAUTH_REDIRECT_PROXY_URL'' in
      if OauthRedirectProxyUrl = [] then
        (Returned (),
         emit (KlogError ''OAUTH_REDIRECT_PROXY_URL not set: not updating spi configuration'') s)
      else
        (let k = KubernetesClient i;
             namespace = ''spi-system'';
             configMapName = ''spi-oauth-service-environment-config'';
             deploymentName = ''spi-oauth-service'';
             patchData = redirectPatchData OauthRedirectProxyUrl;
             pErr = ConfigMaps_Patch k (trace s) namespace configMapName MergePatchType patchData;
             s1 = emit (ConfigMapsPatch namespace configMapName MergePatchType patchData) s
         in (case pErr of
               Some err \<Rightarrow> (Returned (), emit (KlogError (error_text err)) s1)
             | None \<Rightarrow>
                 (let got = KubeRest_Get k (trace s1) namespace deploymentName;
                      s2 = emit (KubeRestGet namespace deploymentName) s1
                  in (case got of
                        Inl err \<Rightarrow> (Returned (), emit (KlogError (error_text err)) s2)
                      | Inr deployment \<Rightarrow>
                          (let newDeployment = DeepCopy deployment;
                               ann = (case Annotations newDeployment of
                                        None \<Rightarrow> Map.empty
                                      | Some a \<Rightarrow> a);
                               now = time_Now_RFC3339 h (trace s2);
                               s3 = emit TimeNow s2;
                               ann2 = ann(''kubectl.kubernetes.io/restartedAt'' \<mapsto> now);
                               newDeployment2 = newDeployment\<lparr>Replicas := Some 0\<rparr>;
                               newDeployment3 = newDeployment2\<lparr>Annotations := Some ann2\<rparr>;
                               uErr = Deployments_Update k (trace s3) namespace newDeployment3;
                               s4 = emit (DeploymentsUpdate namespace newDeployment3) s3
                           in (case uErr of
                                 Some err \<Rightarrow> (Returned (), emit (KlogError (error_text err)) s4)
                               | None \<Rightarrow> (Returned (), s4))))))))"

text \<open>
  \<open>InstallAppStudioPreviewMode\<close>: clone, environment, bootstrap script, redirect
  fixup, registry secret. A panic of a step is a panic of the whole.
\<close>

definition InstallAppStudioPreviewMode ::
  "'o InstallAppStudio \<Rightarrow> 'o host \<Rightarrow> 'o state \<Rightarrow> error option outcome \<times> 'o state" where
  "InstallAppStudioPreviewMode i h s =
     (case cloneInfraDeployments i h s of
        (Panicked, s1) \<Rightarrow> (Panicked, s1)
      | (Returned (remote, Some err), s1) \<Rightarrow> (Returned (Some err), s1)
      | (Returned (remote, None), s1) \<Rightarrow>
          (let s2 = setInstallationEnvironments i h s1;
               xErr = utils_ExecuteCommandInASpecificDirectory h (trace s2) (env s2)
                        ''hack/bootstrap-cluster.sh'' previewInstallArgs (InfraDeploymentsCloneDir i);
               s3 = emit (ExecuteCommand ''hack/bootstrap-cluster.sh'' previewInstallArgs
                            (InfraDeploymentsCloneDir i)) s2
           in (case xErr of
                 Some err \<Rightarrow> (Returned (Some err), s3)
               | None \<Rightarrow>
                   (case addSPIOauthRedirectProxyUrl i h s3 of
                      (Panicked, s4) \<Rightarrow> (Panicked, s4)
                    | (Returned u, s4) \<Rightarrow> createE2EQuaySecret i h s4))))"

section \<open>Example worlds\<close>

text \<open>
  Concrete collaborators on which the theorems below are exercised. The decoder of the
  example answers as Go's standard decoder does on the two tokens that occur:
  \<open>eyJhIjoxfQ==\<close> is the encoding of \<open>{"a":1}\<close>, anything else is refused. The random
  source returns one string on its first draw and another one afterwards.
\<close>

definition exampleDecode :: "string \<Rightarrow> string \<times> error option" where
  "exampleDecode t =
     (if t = ''eyJhIjoxfQ=='' then (''{'' @ [CHR 0x22] @ ''a'' @ [CHR 0x22] @ '':1}'', None)
      else ([], Some (Error PlainError ''illegal base64 data'')))"

fun isRandomDraw :: "'o event \<Rightarrow> bool" where
  "isRandomDraw (GenerateRandomString n) = True"
| "isRandomDraw e = False"

definition exampleHost :: "string host" where
  "exampleHost =
     \<lparr>os_Stat = (\<lambda>tr p. (None, Some (Error NotExist ''no such file or directory''))),
      os_RemoveAll = (\<lambda>tr p. None),
      git_PlainClone = (\<lambda>tr p b opts. (Some (Repository 0), None)),
      Repository_CreateRemote =
        (\<lambda>tr r c. case r of None \<Rightarrow> Panicked | Some x \<Rightarrow> Returned (Some (Remote 0), None)),
      util_GenerateRandomString =
        (\<lambda>tr n. if list_ex isRandomDraw tr then take n ''zyxwvuts'' else take n ''abcdefgh''),
      utils_ExecuteCommandInASpecificDirectory = (\<lambda>tr e c a d. None),
      base64_DecodeString = exampleDecode,
      time_Now_RFC3339 = (\<lambda>tr. ''2026-11-01T12:00:00Z''),
      QuayRepositorySecretNamespace = ''e2e-secrets'',
      QuayRepositorySecretName = ''quay-repository''\<rparr>"

definition exampleSecret :: "string Secret" where
  "exampleSecret =
     \<lparr>Secret_Name = ''quay-repository'',
      Secret_Namespace = ''e2e-secrets'',
      Secret_Type = SecretTypeDockerConfigJson,
      Secret_Data = [DockerConfigJsonKey \<mapsto> ''stale''],
      Secret_Rest = Some ''resourceVersion=7''\<rparr>"

definition exampleDeployment :: "string Deployment" where
  "exampleDeployment =
     \<lparr>Annotations = Some [''owner'' \<mapsto> ''spi''],
      Replicas = Some 1,
      Deployment_Rest = ''spi-oauth-service''\<rparr>"

text \<open>A cluster in which every call succeeds; namespace and secret exist.\<close>

definition exampleClient :: "string CustomClient" where
  "exampleClient =
     \<lparr>Namespaces_Get = (\<lambda>tr n. None),
      Namespaces_Create = (\<lambda>tr n. None),
      Secrets_Get = (\<lambda>tr ns n. (Some exampleSecret, None)),
      Secrets_Create = (\<lambda>tr ns x. None),
      Secrets_Update = (\<lambda>tr ns x. None),
      ConfigMaps_Patch = (\<lambda>tr ns n t d. None),
      KubeRest_Get = (\<lambda>tr ns n. Inr exampleDeployment),
      Deployments_Update = (\<lambda>tr ns d. None)\<rparr>"

definition exampleInstall :: "string InstallAppStudio" where
  "exampleInstall =
     \<lparr>KubernetesClient = exampleClient,
      TmpDirectory = ''tmp'',
      InfraDeploymentsCloneDir = ''/work/tmp/infra-deployments'',
      InfraDeploymentsBranch = ''main'',
      InfraDeploymentsOrganizationName = ''redhat-appstudio'',
      LocalForkName = ''qe'',
      LocalGithubForkOrganization = ''redhat-appstudio-qe'',
      E2EApplicationsNamespace = ''appstudio-e2e-test'',
      QuayToken = ''eyJhIjoxfQ=='',
      DefaultImageQuayOrg = ''redhat-appstudio-qe'',
      DefaultImageQuayOrgOAuth2Token = ''oauth2'',
      DefaultImageTagExpiration = ''6h''\<rparr>"

definition exampleState :: "string state" where
  "exampleState =
     \<lparr>env = [''QUAY_TOKEN'' \<mapsto> ''eyJhIjoxfQ=='',
             ''OAUTH_REDIRECT_PROXY_URL'' \<mapsto> ''https://proxy.example''],
      trace = []\<rparr>"

text \<open>Variations: a failing clone, a failing remote, a failing script, a failing cluster.\<close>

definition cloneFailsHost :: "string host" where
  "cloneFailsHost =
     exampleHost\<lparr>git_PlainClone :=
       (\<lambda>tr p b opts. (Some (Repository 0), Some (Error PlainError ''authentication required'')))\<rparr>"

definition remoteFailsHost :: "string host" where
  "remoteFailsHost =
     exampleHost\<lparr>Repository_CreateRemote :=
       (\<lambda>tr r c. Returned (None, Some (Error PlainError ''remote already exists'')))\<rparr>"

definition scriptFailsHost :: "string host" where
  "scriptFailsHost =
     exampleHost\<lparr>utils_ExecuteCommandInASpecificDirectory :=
       (\<lambda>tr e c a d. Some (Error PlainError ''exit status 1''))\<rparr>"

definition statDeniedHost :: "string host" where
  "statDeniedHost =
     exampleHost\<lparr>os_Stat := (\<lambda>tr p. (None, Some (Error PlainError ''permission denied'')))\<rparr>"

definition regularFileHost :: "string host" where
  "regularFileHost = exampleHost\<lparr>os_Stat := (\<lambda>tr p. (Some \<lparr>IsDir = False\<rparr>, None))\<rparr>"

definition fetchFailsInstall :: "string InstallAppStudio" where
  "fetchFailsInstall =
     exampleInstall\<lparr>KubernetesClient :=
       exampleClient\<lparr>KubeRest_Get := (\<lambda>tr ns n. Inl (Error PlainError ''connection refused''))\<rparr>\<rparr>"

section \<open>The clone step\<close>

text \<open>
  Once the directory check has passed, the result of \<open>cloneInfraDeployments\<close> is the
  result of \<open>CreateRemote\<close> on the pointer the clone returned, whatever error the
  clone returned with it.
\<close>

lemma clone_after_check:
  assumes "removeExistingCloneDir i h s = (Returned None, s1)"
    and "git_PlainClone h (trace s1 @ [KlogInfo (cloneLogLine i)]) (InfraDeploymentsCloneDir i) False
           (cloneOptions i) = (repo, cerr)"
  shows "cloneInfraDeployments i h s =
           (Repository_CreateRemote h
              (trace s1 @ [KlogInfo (cloneLogLine i),
                           GitPlainClone (InfraDeploymentsCloneDir i) False (cloneOptions i)])
              repo (forkRemoteConfig i),
            s1\<lparr>trace := trace s1 @
               [KlogInfo (cloneLogLine i),
                GitPlainClone (InfraDeploymentsCloneDir i) False (cloneOptions i),
                CreateRemote repo (forkRemoteConfig i)]\<rparr>)"
  using assms by (simp add: cloneInfraDeployments_def Let_def emit_def)

text \<open>
  C2. When the clone call is reached and fails with an error \<open>cerr\<close>, the function
  still calls \<open>CreateRemote\<close> (on the pointer the clone returned) and returns what
  \<open>CreateRemote\<close> returns: \<open>cerr\<close> does not occur in the result, so the only error
  the caller can see is one of the remote creation.
\<close>

theorem clone_error_discarded:
  assumes "removeExistingCloneDir i h s = (Returned None, s1)"
    and "git_PlainClone h (trace s1 @ [KlogInfo (cloneLogLine i)]) (InfraDeploymentsCloneDir i) False
           (cloneOptions i) = (repo, Some cerr)"
  shows "cloneInfraDeployments i h s =
           (Repository_CreateRemote h
              (trace s1 @ [KlogInfo (cloneLogLine i),
                           GitPlainClone (InfraDeploymentsCloneDir i) False (cloneOptions i)])
              repo (forkRemoteConfig i),
            s1\<lparr>trace := trace s1 @
               [KlogInfo (cloneLogLine i),
                GitPlainClone (InfraDeploymentsCloneDir i) False (cloneOptions i),
                CreateRemote repo (forkRemoteConfig i)]\<rparr>)"
  using assms by (rule clone_after_check)

theorem clone_error_discarded_witness:
  "cloneInfraDeployments exampleInstall cloneFailsHost exampleState =
     (Returned (Some (Remote 0), None),
      exampleState\<lparr>trace :=
        [OsStat ''/work/tmp/infra-deployments'',
         KlogInfo (cloneLogLine exampleInstall),
         GitPlainClone ''/work/tmp/infra-deployments'' False (cloneOptions exampleInstall),
         CreateRemote (Some (Repository 0)) (forkRemoteConfig exampleInstall)]\<rparr>)"
proof -
  have h1: "removeExistingCloneDir exampleInstall cloneFailsHost exampleState =
              (Returned None, exampleState\<lparr>trace := [OsStat ''/work/tmp/infra-deployments'']\<rparr>)"
    by (simp add: removeExistingCloneDir_def cloneFailsHost_def exampleHost_def exampleInstall_def
        exampleState_def emit_def)
  have h2: "git_PlainClone cloneFailsHost
              (trace (exampleState\<lparr>trace := [OsStat ''/work/tmp/infra-deployments'']\<rparr>)
                 @ [KlogInfo (cloneLogLine exampleInstall)])
              (InfraDeploymentsCloneDir exampleInstall) False (cloneOptions exampleInstall) =
              (Some (Repository 0), Some (Error PlainError ''authentication required''))"
    by (simp add: cloneFailsHost_def)
  have c: "Repository_CreateRemote cloneFailsHost tr (Some (Repository 0)) cfg =
             Returned (Some (Remote 0), None)" for tr cfg
    by (simp add: cloneFailsHost_def exampleHost_def)
  have d: "InfraDeploymentsCloneDir exampleInstall = ''/work/tmp/infra-deployments''"
    by (simp add: exampleInstall_def)
  show ?thesis
    using clone_error_discarded [OF h1 h2] by (simp add: c d)
qed

text \<open>
  C9. When \<open>os.Stat\<close> returns a nil \<open>FileInfo\<close> with an error that is not a not-exist
  error, the function panics right after the \<open>Stat\<close> call: no error is returned. When
  the path is a regular file (\<open>Stat\<close> succeeds, \<open>IsDir\<close> is false), the directory check
  ends without a removal and the events of the function are the \<open>Stat\<close>, the log line,
  the clone and the remote creation: no \<open>RemoveAll\<close> precedes the clone.
\<close>

theorem stat_error_panics_and_file_kept:
  "(os_Stat h (trace s) (InfraDeploymentsCloneDir i) = (None, Some err) \<and> \<not> os_IsNotExist (Some err)
      \<longrightarrow> cloneInfraDeployments i h s =
            (Panicked, s\<lparr>trace := trace s @ [OsStat (InfraDeploymentsCloneDir i)]\<rparr>))
   \<and> (os_Stat h (trace s) (InfraDeploymentsCloneDir i) = (Some fi, None) \<and> \<not> IsDir fi
      \<longrightarrow> removeExistingCloneDir i h s =
            (Returned None, s\<lparr>trace := trace s @ [OsStat (InfraDeploymentsCloneDir i)]\<rparr>)
        \<and> (\<exists>repo. trace (snd (cloneInfraDeployments i h s)) =
              trace s @ [OsStat (InfraDeploymentsCloneDir i),
                         KlogInfo (cloneLogLine i),
                         GitPlainClone (InfraDeploymentsCloneDir i) False (cloneOptions i),
                         CreateRemote repo (forkRemoteConfig i)]))"
  by (auto simp add: cloneInfraDeployments_def removeExistingCloneDir_def Let_def emit_def
      split: prod.splits)

theorem stat_error_panics_and_file_kept_witness:
  "cloneInfraDeployments exampleInstall statDeniedHost exampleState =
     (Panicked, exampleState\<lparr>trace := [OsStat ''/work/tmp/infra-deployments'']\<rparr>)
   \<and> trace (snd (cloneInfraDeployments exampleInstall regularFileHost exampleState)) =
       [OsStat ''/work/tmp/infra-deployments'',
        KlogInfo (cloneLogLine exampleInstall),
        GitPlainClone ''/work/tmp/infra-deployments'' False (cloneOptions exampleInstall),
        CreateRemote (Some (Repository 0)) (forkRemoteConfig exampleInstall)]"
proof
  have d: "InfraDeploymentsCloneDir exampleInstall = ''/work/tmp/infra-deployments''"
    by (simp add: exampleInstall_def)
  have h1: "os_Stat statDeniedHost (trace exampleState) (InfraDeploymentsCloneDir exampleInstall) =
              (None, Some (Error PlainError ''permission denied''))
            \<and> \<not> os_IsNotExist (Some (Error PlainError ''permission denied''))"
    by (simp add: statDeniedHost_def)
  from stat_error_panics_and_file_kept
         [of statDeniedHost exampleState exampleInstall "Error PlainError ''permission denied''"]
       h1
  show "cloneInfraDeployments exampleInstall statDeniedHost exampleState =
          (Panicked, exampleState\<lparr>trace := [OsStat ''/work/tmp/infra-deployments'']\<rparr>)"
    by (simp add: d exampleState_def)
  have h2: "os_Stat regularFileHost (trace exampleState) (InfraDeploymentsCloneDir exampleInstall) =
              (Some \<lparr>IsDir = False\<rparr>, None) \<and> \<not> IsDir \<lparr>IsDir = False\<rparr>"
    by (simp add: regularFileHost_def)
  have c: "git_PlainClone regularFileHost tr p b opts = (Some (Repository 0), None)" for tr p b opts
    by (simp add: regularFileHost_def exampleHost_def)
  from stat_error_panics_and_file_kept
         [of regularFileHost exampleState exampleInstall _ "\<lparr>IsDir = False\<rparr>"]
       h2
  obtain repo where
    r: "removeExistingCloneDir exampleInstall regularFileHost exampleState =
          (Returned None,
           exampleState\<lparr>trace := trace exampleState @ [OsStat (InfraDeploymentsCloneDir exampleInstall)]\<rparr>)"
    and t: "trace (snd (cloneInfraDeployments exampleInstall regularFileHost exampleState)) =
          trace exampleState @
            [OsStat (InfraDeploymentsCloneDir exampleInstall),
             KlogInfo (cloneLogLine exampleInstall),
             GitPlainClone (InfraDeploymentsCloneDir exampleInstall) False (cloneOptions exampleInstall),
             CreateRemote repo (forkRemoteConfig exampleInstall)]"
    by blast
  have "last (trace (snd (cloneInfraDeployments exampleInstall regularFileHost exampleState))) =
          CreateRemote (Some (Repository 0)) (forkRemoteConfig exampleInstall)"
    by (simp add: cloneInfraDeployments_def r c Let_def emit_def)
  with t have "repo = Some (Repository 0)" by simp
  with t show "trace (snd (cloneInfraDeployments exampleInstall regularFileHost exampleState)) =
       [OsStat ''/work/tmp/infra-deployments'',
        KlogInfo (cloneLogLine exampleInstall),
        GitPlainClone ''/work/tmp/infra-deployments'' False (cloneOptions exampleInstall),
        CreateRemote (Some (Repository 0)) (forkRemoteConfig exampleInstall)]"
    by (simp add: d exampleState_def)
qed

section \<open>Environment projection\<close>

text \<open>One \<open>os.Setenv\<close> call, seen from a variable: other variables keep their value.\<close>

lemma os_Setenv_other: "v \<noteq> k \<Longrightarrow> snd (os_Setenv k x e) v = e v"
  by (simp add: os_Setenv_def)

lemma os_Setenv_same:
  "snd (os_Setenv k x e) k =
     (if k = [] \<or> CHR ''='' \<in> set k \<or> CHR 0x00 \<in> set k \<or> CHR 0x00 \<in> set x then e k else Some x)"
  by (simp add: os_Setenv_def)

lemma GetEnv_Setenv_other:
  "key \<noteq> k \<Longrightarrow> GetEnv (snd (os_Setenv k x e)) key d = GetEnv e key d"
  by (simp add: GetEnv_def os_Getenv_def os_Setenv_other)

lemma GetEnv_cong: "e key = e2 key \<Longrightarrow> GetEnv e key d = GetEnv e2 key d"
  by (simp add: GetEnv_def os_Getenv_def)

text \<open>
  The effect of one run of \<open>setInstallationEnvironments\<close>, variable by variable: one
  random draw is recorded; a variable the function does not set keeps its value; a
  variable it sets gets its value unless \<open>os.Setenv\<close> refuses that value.
\<close>

lemma setInstallationEnvironments_trace:
  "trace (setInstallationEnvironments i h s) = trace s @ [GenerateRandomString 4]"
  by (simp add: setInstallationEnvironments_def Let_def)

lemma setInstallationEnvironments_other:
  assumes "v \<noteq> ''MY_GITHUB_ORG''" "v \<noteq> ''MY_GITHUB_TOKEN''" "v \<noteq> ''MY_GIT_FORK_REMOTE''"
    "v \<noteq> ''TEST_BRANCH_ID''" "v \<noteq> ''QUAY_TOKEN''" "v \<noteq> ''IMAGE_CONTROLLER_QUAY_ORG''"
    "v \<noteq> ''IMAGE_CONTROLLER_QUAY_TOKEN''" "v \<noteq> ''BUILD_SERVICE_IMAGE_TAG_EXPIRATION''"
    "v \<noteq> ''PAC_GITHUB_APP_ID''" "v \<noteq> ''PAC_GITHUB_APP_PRIVATE_KEY''"
  shows "env (setInstallationEnvironments i h s) v = env s v"
  using assms by (simp add: setInstallationEnvironments_def Let_def os_Setenv_other)

lemma env_TEST_BRANCH_ID:
  "env (setInstallationEnvironments i h s) ''TEST_BRANCH_ID'' =
     (if CHR 0x00 \<in> set (util_GenerateRandomString h (trace s) 4) then env s ''TEST_BRANCH_ID''
      else Some (util_GenerateRandomString h (trace s) 4))"
  by (simp add: setInstallationEnvironments_def Let_def os_Setenv_other os_Setenv_same)

lemma env_MY_GITHUB_ORG:
  "env (setInstallationEnvironments i h s) ''MY_GITHUB_ORG'' =
     (if CHR 0x00 \<in> set (LocalGithubForkOrganization i) then env s ''MY_GITHUB_ORG''
      else Some (LocalGithubForkOrganization i))"
  by (simp add: setInstallationEnvironments_def Let_def os_Setenv_other os_Setenv_same)

lemma env_MY_GIT_FORK_REMOTE:
  "env (setInstallationEnvironments i h s) ''MY_GIT_FORK_REMOTE'' =
     (if CHR 0x00 \<in> set (LocalForkName i) then env s ''MY_GIT_FORK_REMOTE''
      else Some (LocalForkName i))"
  by (simp add: setInstallationEnvironments_def Let_def os_Setenv_other os_Setenv_same)

lemma env_QUAY_TOKEN:
  "env (setInstallationEnvironments i h s) ''QUAY_TOKEN'' =
     (if CHR 0x00 \<in> set (QuayToken i) then env s ''QUAY_TOKEN''
      else Some (QuayToken i))"
  by (simp add: setInstallationEnvironments_def Let_def os_Setenv_other os_Setenv_same)

lemma env_IMAGE_CONTROLLER_QUAY_ORG:
  "env (setInstallationEnvironments i h s) ''IMAGE_CONTROLLER_QUAY_ORG'' =
     (if CHR 0x00 \<in> set (DefaultImageQuayOrg i) then env s ''IMAGE_CONTROLLER_QUAY_ORG''
      else Some (DefaultImageQuayOrg i))"
  by (simp add: setInstallationEnvironments_def Let_def os_Setenv_other os_Setenv_same)

lemma env_IMAGE_CONTROLLER_QUAY_TOKEN:
  "env (setInstallationEnvironments i h s) ''IMAGE_CONTROLLER_QUAY_TOKEN'' =
     (if CHR 0x00 \<in> set (DefaultImageQuayOrgOAuth2Token i) then env s ''IMAGE_CONTROLLER_QUAY_TOKEN''
      else Some (DefaultImageQuayOrgOAuth2Token i))"
  by (simp add: setInstallationEnvironments_def Let_def os_Setenv_other os_Setenv_same)

lemma env_BUILD_SERVICE_IMAGE_TAG_EXPIRATION:
  "env (setInstallationEnvironments i h s) ''BUILD_SERVICE_IMAGE_TAG_EXPIRATION'' =
     (if CHR 0x00 \<in> set (DefaultImageTagExpiration i) then env s ''BUILD_SERVICE_IMAGE_TAG_EXPIRATION''
      else Some (DefaultImageTagExpiration i))"
  by (simp add: setInstallationEnvironments_def Let_def os_Setenv_other os_Setenv_same)

lemma env_MY_GITHUB_TOKEN:
  "env (setInstallationEnvironments i h s) ''MY_GITHUB_TOKEN'' =
     (if CHR 0x00 \<in> set (GetEnv (env s) ''GITHUB_TOKEN'' []) then env s ''MY_GITHUB_TOKEN''
      else Some (GetEnv (env s) ''GITHUB_TOKEN'' []))"
  by (simp add: setInstallationEnvironments_def Let_def os_Setenv_other os_Setenv_same
      GetEnv_Setenv_other)

lemma GetEnv_GITHUB_TOKEN:
  "GetEnv (env (setInstallationEnvironments i h s)) ''GITHUB_TOKEN'' d = GetEnv (env s) ''GITHUB_TOKEN'' d"
  by (rule GetEnv_cong, rule setInstallationEnvironments_other) simp_all

lemma env_PAC_GITHUB_APP_ID:
  "env (setInstallationEnvironments i h s) ''PAC_GITHUB_APP_ID'' =
     (if CHR 0x00 \<in> set (GetEnv (env s) ''E2E_PAC_GITHUB_APP_ID'' []) then env s ''PAC_GITHUB_APP_ID''
      else Some (GetEnv (env s) ''E2E_PAC_GITHUB_APP_ID'' []))"
  by (simp add: setInstallationEnvironments_def Let_def os_Setenv_other os_Setenv_same
      GetEnv_Setenv_other)

lemma GetEnv_E2E_PAC_GITHUB_APP_ID:
  "GetEnv (env (setInstallationEnvironments i h s)) ''E2E_PAC_GITHUB_APP_ID'' d = GetEnv (env s) ''E2E_PAC_GITHUB_APP_ID'' d"
  by (rule GetEnv_cong, rule setInstallationEnvironments_other) simp_all

lemma env_PAC_GITHUB_APP_PRIVATE_KEY:
  "env (setInstallationEnvironments i h s) ''PAC_GITHUB_APP_PRIVATE_KEY'' =
     (if CHR 0x00 \<in> set (GetEnv (env s) ''E2E_PAC_GITHUB_APP_PRIVATE_KEY'' []) then env s ''PAC_GITHUB_APP_PRIVATE_KEY''
      else Some (GetEnv (env s) ''E2E_PAC_GITHUB_APP_PRIVATE_KEY'' []))"
  by (simp add: setInstallationEnvironments_def Let_def os_Setenv_other os_Setenv_same
      GetEnv_Setenv_other)

lemma GetEnv_E2E_PAC_GITHUB_APP_PRIVATE_KEY:
  "GetEnv (env (setInstallationEnvironments i h s)) ''E2E_PAC_GITHUB_APP_PRIVATE_KEY'' d = GetEnv (env s) ''E2E_PAC_GITHUB_APP_PRIVATE_KEY'' d"
  by (rule GetEnv_cong, rule setInstallationEnvironments_other) simp_all

lemma ten_way:
  "(x = a1 \<longrightarrow> P) \<Longrightarrow> (x = a2 \<longrightarrow> P) \<Longrightarrow> (x = a3 \<longrightarrow> P) \<Longrightarrow> (x = a4 \<longrightarrow> P) \<Longrightarrow> (x = a5 \<longrightarrow> P)
   \<Longrightarrow> (x = a6 \<longrightarrow> P) \<Longrightarrow> (x = a7 \<longrightarrow> P) \<Longrightarrow> (x = a8 \<longrightarrow> P) \<Longrightarrow> (x = a9 \<longrightarrow> P) \<Longrightarrow> (x = a10 \<longrightarrow> P)
   \<Longrightarrow> (x \<noteq> a1 \<longrightarrow> x \<noteq> a2 \<longrightarrow> x \<noteq> a3 \<longrightarrow> x \<noteq> a4 \<longrightarrow> x \<noteq> a5 \<longrightarrow> x \<noteq> a6 \<longrightarrow> x \<noteq> a7
        \<longrightarrow> x \<noteq> a8 \<longrightarrow> x \<noteq> a9 \<longrightarrow> x \<noteq> a10 \<longrightarrow> P)
   \<Longrightarrow> P"
  by blast

text \<open>
  C3, as claimed: two runs leave every variable the function sets as one run does. This
  fails for \<open>TEST_BRANCH_ID\<close>, which each run draws afresh: with a random source whose
  second draw differs from its first, the value after two runs is the second draw.
\<close>

theorem environment_projection_not_idempotent:
  "env (setInstallationEnvironments exampleInstall exampleHost
          (setInstallationEnvironments exampleInstall exampleHost exampleState)) ''TEST_BRANCH_ID''
   \<noteq> env (setInstallationEnvironments exampleInstall exampleHost exampleState) ''TEST_BRANCH_ID''"
  by (simp add: env_TEST_BRANCH_ID setInstallationEnvironments_trace exampleHost_def exampleState_def)

text \<open>
  C3, amended: for every controller, collaborators and starting state, two runs leave
  every environment variable other than \<open>TEST_BRANCH_ID\<close> with the value one run leaves.
\<close>

theorem environment_projection_idempotent_but_branch_id:
  assumes "v \<noteq> ''TEST_BRANCH_ID''"
  shows "env (setInstallationEnvironments i h (setInstallationEnvironments i h s)) v
         = env (setInstallationEnvironments i h s) v"
proof (rule ten_way [of v "''MY_GITHUB_ORG''" _ "''MY_GITHUB_TOKEN''" "''MY_GIT_FORK_REMOTE''"
    "''TEST_BRANCH_ID''" "''QUAY_TOKEN''" "''IMAGE_CONTROLLER_QUAY_ORG''"
    "''IMAGE_CONTROLLER_QUAY_TOKEN''" "''BUILD_SERVICE_IMAGE_TAG_EXPIRATION''"
    "''PAC_GITHUB_APP_ID''" "''PAC_GITHUB_APP_PRIVATE_KEY''"]; intro impI)
  assume "v = ''MY_GITHUB_ORG''"
  then show ?thesis by (simp add: env_MY_GITHUB_ORG)
next
  assume "v = ''MY_GITHUB_TOKEN''"
  then show ?thesis by (simp add: env_MY_GITHUB_TOKEN GetEnv_GITHUB_TOKEN)
next
  assume "v = ''MY_GIT_FORK_REMOTE''"
  then show ?thesis by (simp add: env_MY_GIT_FORK_REMOTE)
next
  assume "v = ''TEST_BRANCH_ID''"
  with assms show ?thesis by blast
next
  assume "v = ''QUAY_TOKEN''"
  then show ?thesis by (simp add: env_QUAY_TOKEN)
next
  assume "v = ''IMAGE_CONTROLLER_QUAY_ORG''"
  then show ?thesis by (simp add: env_IMAGE_CONTROLLER_QUAY_ORG)
next
  assume "v = ''IMAGE_CONTROLLER_QUAY_TOKEN''"
  then show ?thesis by (simp add: env_IMAGE_CONTROLLER_QUAY_TOKEN)
next
  assume "v = ''BUILD_SERVICE_IMAGE_TAG_EXPIRATION''"
  then show ?thesis by (simp add: env_BUILD_SERVICE_IMAGE_TAG_EXPIRATION)
next
  assume "v = ''PAC_GITHUB_APP_ID''"
  then show ?thesis by (simp add: env_PAC_GITHUB_APP_ID GetEnv_E2E_PAC_GITHUB_APP_ID)
next
  assume "v = ''PAC_GITHUB_APP_PRIVATE_KEY''"
  then show ?thesis
    by (simp add: env_PAC_GITHUB_APP_PRIVATE_KEY GetEnv_E2E_PAC_GITHUB_APP_PRIVATE_KEY)
next
  assume "v \<noteq> ''MY_GITHUB_ORG''" "v \<noteq> ''MY_GITHUB_TOKEN''" "v \<noteq> ''MY_GIT_FORK_REMOTE''"
    "v \<noteq> ''TEST_BRANCH_ID''" "v \<noteq> ''QUAY_TOKEN''" "v \<noteq> ''IMAGE_CONTROLLER_QUAY_ORG''"
    "v \<noteq> ''IMAGE_CONTROLLER_QUAY_TOKEN''" "v \<noteq> ''BUILD_SERVICE_IMAGE_TAG_EXPIRATION''"
    "v \<noteq> ''PAC_GITHUB_APP_ID''" "v \<noteq> ''PAC_GITHUB_APP_PRIVATE_KEY''"
  then have "env (setInstallationEnvironments i h t) v = env t v" for t
    by (rule setInstallationEnvironments_other)
  then show ?thesis by simp
qed

theorem environment_projection_idempotent_but_branch_id_witness:
  "env (setInstallationEnvironments exampleInstall exampleHost
          (setInstallationEnvironments exampleInstall exampleHost exampleState)) ''QUAY_TOKEN''
   = Some ''eyJhIjoxfQ==''
   \<and> env (setInstallationEnvironments exampleInstall exampleHost exampleState) ''QUAY_TOKEN''
   = Some ''eyJhIjoxfQ==''"
proof -
  have h: "''QUAY_TOKEN'' \<noteq> ''TEST_BRANCH_ID''" by simp
  have q: "QuayToken exampleInstall = ''eyJhIjoxfQ==''" by (simp add: exampleInstall_def)
  have one: "env (setInstallationEnvironments exampleInstall exampleHost exampleState) ''QUAY_TOKEN''
             = Some ''eyJhIjoxfQ==''"
    by (simp add: env_QUAY_TOKEN q)
  show ?thesis
    using environment_projection_idempotent_but_branch_id
            [OF h, of exampleInstall exampleHost exampleState] one
    by simp
qed

section \<open>The redirect fixup\<close>

text \<open>
  The fixup has no error result and no nil dereference: it always returns, and it never
  touches the environment.
\<close>

lemma addSPIOauthRedirectProxyUrl_returns:
  "fst (addSPIOauthRedirectProxyUrl i h s) = Returned ()"
  by (simp add: addSPIOauthRedirectProxyUrl_def Let_def split: option.splits sum.splits)

lemma addSPIOauthRedirectProxyUrl_env:
  "env (snd (addSPIOauthRedirectProxyUrl i h s)) = env s"
  by (simp add: addSPIOauthRedirectProxyUrl_def Let_def emit_def split: option.splits sum.splits)

lemma addSPIOauthRedirectProxyUrl_trace:
  "\<exists>evs. trace (snd (addSPIOauthRedirectProxyUrl i h s)) = trace s @ evs"
  by (simp add: addSPIOauthRedirectProxyUrl_def Let_def emit_def split: option.splits sum.splits)

lemma addSPIOauthRedirectProxyUrl_pair:
  "addSPIOauthRedirectProxyUrl i h s = (Returned (), snd (addSPIOauthRedirectProxyUrl i h s))"
  using addSPIOauthRedirectProxyUrl_returns [of i h s]
  by (cases "addSPIOauthRedirectProxyUrl i h s") simp

text \<open>
  C6. When the redirect URL is set, the config map patch succeeds and the deployment
  fetch fails, the fixup returns normally and its events are exactly the patch, the
  fetch and the log line of the fetch error: no deployment update is submitted.
\<close>

theorem deployment_fetch_failure_logged:
  assumes "env s ''OAUTH_REDIRECT_PROXY_URL'' = Some url" and "url \<noteq> []"
    and "ConfigMaps_Patch (KubernetesClient i) (trace s) ''spi-system''
           ''spi-oauth-service-environment-config'' MergePatchType (redirectPatchData url) = None"
    and "KubeRest_Get (KubernetesClient i)
           (trace s @ [ConfigMapsPatch ''spi-system'' ''spi-oauth-service-environment-config''
                         MergePatchType (redirectPatchData url)])
           ''spi-system'' ''spi-oauth-service'' = Inl err"
  shows "addSPIOauthRedirectProxyUrl i h s =
           (Returned (),
            s\<lparr>trace := trace s @
               [ConfigMapsPatch ''spi-system'' ''spi-oauth-service-environment-config''
                  MergePatchType (redirectPatchData url),
                KubeRestGet ''spi-system'' ''spi-oauth-service'',
                KlogError (error_text err)]\<rparr>)"
  using assms by (simp add: addSPIOauthRedirectProxyUrl_def os_Getenv_def Let_def emit_def)

theorem deployment_fetch_failure_logged_witness:
  "addSPIOauthRedirectProxyUrl fetchFailsInstall exampleHost exampleState =
     (Returned (),
      exampleState\<lparr>trace :=
        [ConfigMapsPatch ''spi-system'' ''spi-oauth-service-environment-config''
           ''application/merge-patch+json'' (redirectPatchData ''https://proxy.example''),
         KubeRestGet ''spi-system'' ''spi-oauth-service'',
         KlogError ''connection refused'']\<rparr>)"
proof -
  have h1: "env exampleState ''OAUTH_REDIRECT_PROXY_URL'' = Some ''https://proxy.example''"
    by (simp add: exampleState_def)
  have h2: "''https://proxy.example'' \<noteq> []" by simp
  have h3: "ConfigMaps_Patch (KubernetesClient fetchFailsInstall) (trace exampleState) ''spi-system''
              ''spi-oauth-service-environment-config'' MergePatchType
              (redirectPatchData ''https://proxy.example'') = None"
    by (simp add: fetchFailsInstall_def exampleInstall_def exampleClient_def)
  have h4: "KubeRest_Get (KubernetesClient fetchFailsInstall)
              (trace exampleState @
                 [ConfigMapsPatch ''spi-system'' ''spi-oauth-service-environment-config''
                    MergePatchType (redirectPatchData ''https://proxy.example'')])
              ''spi-system'' ''spi-oauth-service'' = Inl (Error PlainError ''connection refused'')"
    by (simp add: fetchFailsInstall_def exampleInstall_def exampleClient_def)
  show ?thesis
    using deployment_fetch_failure_logged [OF h1 h2 h3 h4, of exampleHost]
    by (simp add: exampleState_def MergePatchType_def)
qed

text \<open>
  C8. When the patch and the fetch succeed, the deployment submitted to \<open>Update\<close> is the
  fetched one with two changes: the annotation \<open>kubectl.kubernetes.io/restartedAt\<close> is
  set to the timestamp read from the clock, and the replica count is zero. Every other
  annotation and every other field is as fetched. After the update the fixup logs at
  most the update's error.
\<close>

theorem restart_update_frame:
  assumes "env s ''OAUTH_REDIRECT_PROXY_URL'' = Some url" and "url \<noteq> []"
    and "ConfigMaps_Patch (KubernetesClient i) (trace s) ''spi-system''
           ''spi-oauth-service-environment-config'' MergePatchType (redirectPatchData url) = None"
    and "KubeRest_Get (KubernetesClient i)
           (trace s @ [ConfigMapsPatch ''spi-system'' ''spi-oauth-service-environment-config''
                         MergePatchType (redirectPatchData url)])
           ''spi-system'' ''spi-oauth-service'' = Inr d"
  shows "\<exists>now d2 rest.
           now = time_Now_RFC3339 h
                   (trace s @ [ConfigMapsPatch ''spi-system'' ''spi-oauth-service-environment-config''
                                 MergePatchType (redirectPatchData url),
                               KubeRestGet ''spi-system'' ''spi-oauth-service''])
         \<and> d2 = d\<lparr>Annotations :=
                     Some ((case Annotations d of None \<Rightarrow> Map.empty | Some a \<Rightarrow> a)
                             (''kubectl.kubernetes.io/restartedAt'' \<mapsto> now)),
                   Replicas := Some 0\<rparr>
         \<and> Deployment_Rest d2 = Deployment_Rest d
         \<and> trace (snd (addSPIOauthRedirectProxyUrl i h s)) =
             trace s @
               [ConfigMapsPatch ''spi-system'' ''spi-oauth-service-environment-config''
                  MergePatchType (redirectPatchData url),
                KubeRestGet ''spi-system'' ''spi-oauth-service'',
                TimeNow,
                DeploymentsUpdate ''spi-system'' d2] @ rest
         \<and> (rest = [] \<or> (\<exists>t. rest = [KlogError t]))"
  using assms
  by (simp add: addSPIOauthRedirectProxyUrl_def os_Getenv_def Let_def emit_def DeepCopy_def
      split: option.splits)

theorem restart_update_frame_witness:
  "trace (snd (addSPIOauthRedirectProxyUrl exampleInstall exampleHost exampleState)) =
     [ConfigMapsPatch ''spi-system'' ''spi-oauth-service-environment-config''
        ''application/merge-patch+json'' (redirectPatchData ''https://proxy.example''),
      KubeRestGet ''spi-system'' ''spi-oauth-service'',
      TimeNow,
      DeploymentsUpdate ''spi-system''
        \<lparr>Annotations = Some [''owner'' \<mapsto> ''spi'',
                              ''kubectl.kubernetes.io/restartedAt'' \<mapsto> ''2026-11-01T12:00:00Z''],
         Replicas = Some 0,
         Deployment_Rest = ''spi-oauth-service''\<rparr>]"
proof -
  have h1: "env exampleState ''OAUTH_REDIRECT_PROXY_URL'' = Some ''https://proxy.example''"
    by (simp add: exampleState_def)
  have h2: "''https://proxy.example'' \<noteq> []" by simp
  have h3: "ConfigMaps_Patch (KubernetesClient exampleInstall) (trace exampleState) ''spi-system''
              ''spi-oauth-service-environment-config'' MergePatchType
              (redirectPatchData ''https://proxy.example'') = None"
    by (simp add: exampleInstall_def exampleClient_def)
  have h4: "KubeRest_Get (KubernetesClient exampleInstall)
              (trace exampleState @
                 [ConfigMapsPatch ''spi-system'' ''spi-oauth-service-environment-config''
                    MergePatchType (redirectPatchData ''https://proxy.example'')])
              ''spi-system'' ''spi-oauth-service'' = Inr exampleDeployment"
    by (simp add: exampleInstall_def exampleClient_def)
  have u: "Deployments_Update (KubernetesClient exampleInstall) tr ns x = None" for tr ns x
    by (simp add: exampleInstall_def exampleClient_def)
  from restart_update_frame [OF h1 h2 h3 h4, of exampleHost]
  obtain now d2 rest where
    n: "now = ''2026-11-01T12:00:00Z''"
    and d: "d2 = exampleDeployment\<lparr>Annotations :=
                   Some ((case Annotations exampleDeployment of None \<Rightarrow> Map.empty | Some a \<Rightarrow> a)
                           (''kubectl.kubernetes.io/restartedAt'' \<mapsto> now)),
                 Replicas := Some 0\<rparr>"
    and t: "trace (snd (addSPIOauthRedirectProxyUrl exampleInstall exampleHost exampleState)) =
             trace exampleState @
               [ConfigMapsPatch ''spi-system'' ''spi-oauth-service-environment-config''
                  MergePatchType (redirectPatchData ''https://proxy.example''),
                KubeRestGet ''spi-system'' ''spi-oauth-service'',
                TimeNow,
                DeploymentsUpdate ''spi-system'' d2] @ rest"
    by (auto simp add: exampleHost_def)
  have r: "length (trace (snd (addSPIOauthRedirectProxyUrl exampleInstall exampleHost exampleState))) = 4"
    using h1 h3 h4 u
    by (simp add: addSPIOauthRedirectProxyUrl_def os_Getenv_def Let_def emit_def exampleState_def)
  from r t have "rest = []" by (simp add: exampleState_def)
  with t n d show ?thesis
    by (simp add: exampleState_def exampleDeployment_def MergePatchType_def)
qed

section \<open>Registry-secret provisioning\<close>

text \<open>
  \<open>createE2EQuaySecret\<close> only adds events, and never touches the environment.
\<close>

lemma createE2EQuaySecret_trace:
  "\<exists>evs. trace (snd (createE2EQuaySecret i h s)) = trace s @ evs"
  by (simp add: createE2EQuaySecret_def Let_def emit_def split: option.splits prod.splits)

lemma createE2EQuaySecret_env:
  "env (snd (createE2EQuaySecret i h s)) = env s"
  by (simp add: createE2EQuaySecret_def Let_def emit_def split: option.splits prod.splits)

text \<open>
  C4. When \<open>QUAY_TOKEN\<close> is unset or empty, \<open>createE2EQuaySecret\<close> returns the
  credential-missing error and leaves the state as it was: the trace is unchanged, so no
  namespace or secret call was made.
\<close>

theorem quay_token_missing:
  assumes "env s ''QUAY_TOKEN'' = None \<or> env s ''QUAY_TOKEN'' = Some []"
  shows "createE2EQuaySecret i h s =
           (Returned (Some (fmt_Errorf
              (''failed to obtain quay token from '' @ [CHR 0x27] @ ''QUAY_TOKEN'' @ [CHR 0x27]
               @ '' env; make sure the env exists''))), s)"
  using assms by (auto simp add: createE2EQuaySecret_def os_Getenv_def)

theorem quay_token_missing_witness:
  "createE2EQuaySecret exampleInstall exampleHost (exampleState\<lparr>env := Map.empty\<rparr>) =
     (Returned (Some (Error PlainError
        ''failed to obtain quay token from 'QUAY_TOKEN' env; make sure the env exists'')),
      exampleState\<lparr>env := Map.empty\<rparr>)"
proof -
  have h: "env (exampleState\<lparr>env := Map.empty\<rparr>) ''QUAY_TOKEN'' = None
           \<or> env (exampleState\<lparr>env := Map.empty\<rparr>) ''QUAY_TOKEN'' = Some []"
    by simp
  show ?thesis
    using quay_token_missing [OF h, of exampleInstall exampleHost] by (simp add: fmt_Errorf_def)
qed

text \<open>
  C5. When \<open>QUAY_TOKEN\<close> holds a non-empty string that the base64 decoder refuses,
  \<open>createE2EQuaySecret\<close> returns the decode error and leaves the state as it was: no
  cluster call was made.
\<close>

theorem quay_token_not_base64:
  assumes "env s ''QUAY_TOKEN'' = Some tok" and "tok \<noteq> []"
    and "base64_DecodeString h tok = (partial, Some derr)"
  shows "createE2EQuaySecret i h s =
           (Returned (Some (fmt_Errorf
              ''failed to decode quay token. Make sure that QUAY_TOKEN env contain a base64 token'')), s)"
  using assms by (simp add: createE2EQuaySecret_def os_Getenv_def)

theorem quay_token_not_base64_witness:
  "createE2EQuaySecret exampleInstall exampleHost
       (exampleState\<lparr>env := [''QUAY_TOKEN'' \<mapsto> ''not base64!'']\<rparr>) =
     (Returned (Some (Error PlainError
        ''failed to decode quay token. Make sure that QUAY_TOKEN env contain a base64 token'')),
      exampleState\<lparr>env := [''QUAY_TOKEN'' \<mapsto> ''not base64!'']\<rparr>)"
proof -
  have h1: "env (exampleState\<lparr>env := [''QUAY_TOKEN'' \<mapsto> ''not base64!'']\<rparr>) ''QUAY_TOKEN''
            = Some ''not base64!''"
    by simp
  have h2: "''not base64!'' \<noteq> []" by simp
  have h3: "base64_DecodeString exampleHost ''not base64!''
            = ([], Some (Error PlainError ''illegal base64 data''))"
    by (simp add: exampleHost_def exampleDecode_def)
  show ?thesis
    using quay_token_not_base64 [OF h1 h2 h3, of exampleInstall] by (simp add: fmt_Errorf_def)
qed

text \<open>
  What the code does when the token decodes, the namespace exists and the secret \<open>Get\<close>
  succeeds: it returns nil after the two \<open>Get\<close> calls. Neither \<open>Create\<close> nor
  \<open>Update\<close> is called.
\<close>

lemma secret_get_succeeds_no_write:
  assumes "env s ''QUAY_TOKEN'' = Some tok" and "tok \<noteq> []"
    and "base64_DecodeString h tok = (decoded, None)"
    and "Namespaces_Get (KubernetesClient i) (trace s) (QuayRepositorySecretNamespace h) = None"
    and "Secrets_Get (KubernetesClient i)
           (trace s @ [NamespacesGet (QuayRepositorySecretNamespace h)])
           (QuayRepositorySecretNamespace h) (QuayRepositorySecretName h) = (secret, None)"
  shows "createE2EQuaySecret i h s =
           (Returned None,
            s\<lparr>trace := trace s @
               [NamespacesGet (QuayRepositorySecretNamespace h),
                SecretsGet (QuayRepositorySecretNamespace h) (QuayRepositorySecretName h)]\<rparr>)"
  using assms by (simp add: createE2EQuaySecret_def os_Getenv_def Let_def emit_def)

text \<open>
  C1. The claim is that with namespace and secret present the secret is updated to the
  decoded token. On the example cluster (both present, the secret holding a stale
  payload) the run ends after the two \<open>Get\<close> calls: no update is submitted.
\<close>

theorem existing_secret_not_updated:
  "createE2EQuaySecret exampleInstall exampleHost exampleState =
     (Returned None,
      exampleState\<lparr>trace :=
        [NamespacesGet ''e2e-secrets'', SecretsGet ''e2e-secrets'' ''quay-repository'']\<rparr>)"
  by (simp add: createE2EQuaySecret_def exampleInstall_def exampleHost_def exampleState_def
      exampleClient_def exampleDecode_def os_Getenv_def emit_def Let_def)

section \<open>The whole installation\<close>

text \<open>
  After a clone step that returned no error, the installation sets the environment, runs
  the bootstrap script and then either returns the script's error or runs the fixup and
  returns what \<open>createE2EQuaySecret\<close> returns.
\<close>

lemma install_after_clone:
  assumes "cloneInfraDeployments i h s = (Returned (remote, None), s1)"
  shows "InstallAppStudioPreviewMode i h s =
           (case utils_ExecuteCommandInASpecificDirectory h
                   (trace (setInstallationEnvironments i h s1)) (env (setInstallationEnvironments i h s1))
                   ''hack/bootstrap-cluster.sh'' previewInstallArgs (InfraDeploymentsCloneDir i) of
              Some err \<Rightarrow>
                (Returned (Some err),
                 emit (ExecuteCommand ''hack/bootstrap-cluster.sh'' previewInstallArgs
                         (InfraDeploymentsCloneDir i)) (setInstallationEnvironments i h s1))
            | None \<Rightarrow>
                createE2EQuaySecret i h
                  (snd (addSPIOauthRedirectProxyUrl i h
                          (emit (ExecuteCommand ''hack/bootstrap-cluster.sh'' previewInstallArgs
                                   (InfraDeploymentsCloneDir i)) (setInstallationEnvironments i h s1)))))"
proof -
  let ?s3 = "emit (ExecuteCommand ''hack/bootstrap-cluster.sh'' previewInstallArgs
                     (InfraDeploymentsCloneDir i)) (setInstallationEnvironments i h s1)"
  obtain s4 where f: "addSPIOauthRedirectProxyUrl i h ?s3 = (Returned (), s4)"
    using addSPIOauthRedirectProxyUrl_pair by blast
  show ?thesis
    unfolding InstallAppStudioPreviewMode_def Let_def assms
    by (simp add: f split: option.splits)
qed

text \<open>The clone step on the example controller, for three of the example hosts.\<close>

lemma example_clone_dir:
  "InfraDeploymentsCloneDir exampleInstall = ''/work/tmp/infra-deployments''"
  "InfraDeploymentsCloneDir fetchFailsInstall = ''/work/tmp/infra-deployments''"
  by (simp_all add: fetchFailsInstall_def exampleInstall_def)

lemma example_clone_options:
  "cloneLogLine fetchFailsInstall = cloneLogLine exampleInstall"
  "cloneOptions fetchFailsInstall = cloneOptions exampleInstall"
  "forkRemoteConfig fetchFailsInstall = forkRemoteConfig exampleInstall"
  by (simp_all add: fetchFailsInstall_def cloneLogLine_def cloneOptions_def forkRemoteConfig_def
      cloneURL_def cloneRefName_def)

lemma example_clone_ok:
  "cloneInfraDeployments exampleInstall exampleHost exampleState =
     (Returned (Some (Remote 0), None),
      exampleState\<lparr>trace :=
        [OsStat ''/work/tmp/infra-deployments'',
         KlogInfo (cloneLogLine exampleInstall),
         GitPlainClone ''/work/tmp/infra-deployments'' False (cloneOptions exampleInstall),
         CreateRemote (Some (Repository 0)) (forkRemoteConfig exampleInstall)]\<rparr>)"
  by (simp add: cloneInfraDeployments_def removeExistingCloneDir_def Let_def emit_def
      example_clone_dir exampleHost_def exampleState_def)

lemma example_clone_ok_fetch_fails:
  "cloneInfraDeployments fetchFailsInstall exampleHost exampleState =
     (Returned (Some (Remote 0), None),
      exampleState\<lparr>trace :=
        [OsStat ''/work/tmp/infra-deployments'',
         KlogInfo (cloneLogLine exampleInstall),
         GitPlainClone ''/work/tmp/infra-deployments'' False (cloneOptions exampleInstall),
         CreateRemote (Some (Repository 0)) (forkRemoteConfig exampleInstall)]\<rparr>)"
  by (simp add: cloneInfraDeployments_def removeExistingCloneDir_def Let_def emit_def
      example_clone_dir example_clone_options exampleHost_def exampleState_def)

lemma example_clone_ok_script_fails:
  "cloneInfraDeployments exampleInstall scriptFailsHost exampleState =
     (Returned (Some (Remote 0), None),
      exampleState\<lparr>trace :=
        [OsStat ''/work/tmp/infra-deployments'',
         KlogInfo (cloneLogLine exampleInstall),
         GitPlainClone ''/work/tmp/infra-deployments'' False (cloneOptions exampleInstall),
         CreateRemote (Some (Repository 0)) (forkRemoteConfig exampleInstall)]\<rparr>)"
  by (simp add: cloneInfraDeployments_def removeExistingCloneDir_def Let_def emit_def
      example_clone_dir scriptFailsHost_def exampleHost_def exampleState_def)

lemma example_clone_remote_fails:
  "cloneInfraDeployments exampleInstall remoteFailsHost exampleState =
     (Returned (None, Some (Error PlainError ''remote already exists'')),
      exampleState\<lparr>trace :=
        [OsStat ''/work/tmp/infra-deployments'',
         KlogInfo (cloneLogLine exampleInstall),
         GitPlainClone ''/work/tmp/infra-deployments'' False (cloneOptions exampleInstall),
         CreateRemote (Some (Repository 0)) (forkRemoteConfig exampleInstall)]\<rparr>)"
  by (simp add: cloneInfraDeployments_def removeExistingCloneDir_def Let_def emit_def
      example_clone_dir remoteFailsHost_def exampleHost_def exampleState_def)

text \<open>
  On the example cluster \<open>createE2EQuaySecret\<close> returns nil from every state whose
  \<open>QUAY_TOKEN\<close> is the example token.
\<close>

lemma example_secret_step:
  assumes "env s ''QUAY_TOKEN'' = Some ''eyJhIjoxfQ==''"
    and "KubernetesClient i = exampleClient \<or> KubernetesClient i = KubernetesClient fetchFailsInstall"
  shows "fst (createE2EQuaySecret i exampleHost s) = Returned None"
proof -
  have t: "''eyJhIjoxfQ=='' \<noteq> []" by simp
  have d: "base64_DecodeString exampleHost ''eyJhIjoxfQ=='' =
             (''{'' @ [CHR 0x22] @ ''a'' @ [CHR 0x22] @ '':1}'', None)"
    by (simp add: exampleHost_def exampleDecode_def)
  have n: "Namespaces_Get (KubernetesClient i) (trace s) (QuayRepositorySecretNamespace exampleHost) = None"
    using assms(2) by (auto simp add: exampleClient_def fetchFailsInstall_def)
  have g: "Secrets_Get (KubernetesClient i)
             (trace s @ [NamespacesGet (QuayRepositorySecretNamespace exampleHost)])
             (QuayRepositorySecretNamespace exampleHost) (QuayRepositorySecretName exampleHost) =
             (Some exampleSecret, None)"
    using assms(2) by (auto simp add: exampleClient_def fetchFailsInstall_def)
  show ?thesis
    by (simp add: secret_get_succeeds_no_write [OF assms(1) t d n g])
qed

text \<open>
  C7. The installation is sequential and stops at the first step that returns an error.
  (1) If the clone step returns an error, the installation returns that error in the
  state the clone step left: nothing else has run. (2) If the bootstrap command returns
  an error (a non-zero exit), the installation returns that error, and after the clone
  step only the random draw of the environment step and the command itself have
  happened: no cluster call, and no removal of the clone. (3) If the command succeeds,
  the fixup returns normally whatever the cluster answered, and the installation returns
  what \<open>createE2EQuaySecret\<close> returns from the state the fixup left.
\<close>

theorem install_fail_fast:
  "(cloneInfraDeployments i h s = (Returned (remote, Some err), s1)
      \<longrightarrow> InstallAppStudioPreviewMode i h s = (Returned (Some err), s1))
   \<and> (cloneInfraDeployments i h s = (Returned (remote, None), s1)
       \<and> s2 = setInstallationEnvironments i h s1
       \<and> utils_ExecuteCommandInASpecificDirectory h (trace s2) (env s2)
             ''hack/bootstrap-cluster.sh'' previewInstallArgs (InfraDeploymentsCloneDir i) = Some err
      \<longrightarrow> InstallAppStudioPreviewMode i h s =
            (Returned (Some err),
             s2\<lparr>trace := trace s1 @
                [GenerateRandomString 4,
                 ExecuteCommand ''hack/bootstrap-cluster.sh'' previewInstallArgs
                   (InfraDeploymentsCloneDir i)]\<rparr>))
   \<and> (cloneInfraDeployments i h s = (Returned (remote, None), s1)
       \<and> s2 = setInstallationEnvironments i h s1
       \<and> utils_ExecuteCommandInASpecificDirectory h (trace s2) (env s2)
             ''hack/bootstrap-cluster.sh'' previewInstallArgs (InfraDeploymentsCloneDir i) = None
       \<and> s3 = emit (ExecuteCommand ''hack/bootstrap-cluster.sh'' previewInstallArgs
                       (InfraDeploymentsCloneDir i)) s2
      \<longrightarrow> fst (addSPIOauthRedirectProxyUrl i h s3) = Returned ()
          \<and> InstallAppStudioPreviewMode i h s =
              createE2EQuaySecret i h (snd (addSPIOauthRedirectProxyUrl i h s3)))"
proof (intro conjI impI; (elim conjE)?)
  assume "cloneInfraDeployments i h s = (Returned (remote, Some err), s1)"
  then show "InstallAppStudioPreviewMode i h s = (Returned (Some err), s1)"
    by (simp add: InstallAppStudioPreviewMode_def)
next
  assume c: "cloneInfraDeployments i h s = (Returned (remote, None), s1)"
    and d: "s2 = setInstallationEnvironments i h s1"
    and x: "utils_ExecuteCommandInASpecificDirectory h (trace s2) (env s2)
             ''hack/bootstrap-cluster.sh'' previewInstallArgs (InfraDeploymentsCloneDir i) = Some err"
  show "InstallAppStudioPreviewMode i h s =
            (Returned (Some err),
             s2\<lparr>trace := trace s1 @
                [GenerateRandomString 4,
                 ExecuteCommand ''hack/bootstrap-cluster.sh'' previewInstallArgs
                   (InfraDeploymentsCloneDir i)]\<rparr>)"
    using x unfolding install_after_clone [OF c] d
    by (simp add: emit_def setInstallationEnvironments_trace)
next
  show "fst (addSPIOauthRedirectProxyUrl i h s3) = Returned ()"
    by (rule addSPIOauthRedirectProxyUrl_returns)
next
  assume c: "cloneInfraDeployments i h s = (Returned (remote, None), s1)"
    and d: "s2 = setInstallationEnvironments i h s1"
    and x: "utils_ExecuteCommandInASpecificDirectory h (trace s2) (env s2)
             ''hack/bootstrap-cluster.sh'' previewInstallArgs (InfraDeploymentsCloneDir i) = None"
    and e: "s3 = emit (ExecuteCommand ''hack/bootstrap-cluster.sh'' previewInstallArgs
                       (InfraDeploymentsCloneDir i)) s2"
  show "InstallAppStudioPreviewMode i h s =
              createE2EQuaySecret i h (snd (addSPIOauthRedirectProxyUrl i h s3))"
    using x unfolding install_after_clone [OF c] d e by simp
qed

theorem install_fail_fast_witness:
  "InstallAppStudioPreviewMode exampleInstall remoteFailsHost exampleState =
     (Returned (Some (Error PlainError ''remote already exists'')),
      exampleState\<lparr>trace :=
        [OsStat ''/work/tmp/infra-deployments'',
         KlogInfo (cloneLogLine exampleInstall),
         GitPlainClone ''/work/tmp/infra-deployments'' False (cloneOptions exampleInstall),
         CreateRemote (Some (Repository 0)) (forkRemoteConfig exampleInstall)]\<rparr>)
   \<and> fst (InstallAppStudioPreviewMode exampleInstall scriptFailsHost exampleState) =
       Returned (Some (Error PlainError ''exit status 1''))
   \<and> trace (snd (InstallAppStudioPreviewMode exampleInstall scriptFailsHost exampleState)) =
       [OsStat ''/work/tmp/infra-deployments'',
        KlogInfo (cloneLogLine exampleInstall),
        GitPlainClone ''/work/tmp/infra-deployments'' False (cloneOptions exampleInstall),
        CreateRemote (Some (Repository 0)) (forkRemoteConfig exampleInstall),
        GenerateRandomString 4,
        ExecuteCommand ''hack/bootstrap-cluster.sh'' [''preview'', ''--keycloak'', ''--toolchain'']
          ''/work/tmp/infra-deployments'']
   \<and> fst (InstallAppStudioPreviewMode fetchFailsInstall exampleHost exampleState) = Returned None"
proof (intro conjI)
  let ?s1 = "exampleState\<lparr>trace :=
        [OsStat ''/work/tmp/infra-deployments'',
         KlogInfo (cloneLogLine exampleInstall),
         GitPlainClone ''/work/tmp/infra-deployments'' False (cloneOptions exampleInstall),
         CreateRemote (Some (Repository 0)) (forkRemoteConfig exampleInstall)]\<rparr>"
  let ?cmd = "ExecuteCommand ''hack/bootstrap-cluster.sh'' previewInstallArgs"
  from install_fail_fast [of exampleInstall remoteFailsHost exampleState None
         "Error PlainError ''remote already exists''" ?s1]
       example_clone_remote_fails
  show "InstallAppStudioPreviewMode exampleInstall remoteFailsHost exampleState =
          (Returned (Some (Error PlainError ''remote already exists'')), ?s1)"
    by blast
next
  let ?s1 = "exampleState\<lparr>trace :=
        [OsStat ''/work/tmp/infra-deployments'',
         KlogInfo (cloneLogLine exampleInstall),
         GitPlainClone ''/work/tmp/infra-deployments'' False (cloneOptions exampleInstall),
         CreateRemote (Some (Repository 0)) (forkRemoteConfig exampleInstall)]\<rparr>"
  let ?s2 = "setInstallationEnvironments exampleInstall scriptFailsHost ?s1"
  have x: "utils_ExecuteCommandInASpecificDirectory scriptFailsHost (trace ?s2) (env ?s2)
             ''hack/bootstrap-cluster.sh'' previewInstallArgs (InfraDeploymentsCloneDir exampleInstall)
           = Some (Error PlainError ''exit status 1'')"
    by (simp add: scriptFailsHost_def)
  from install_fail_fast [of exampleInstall scriptFailsHost exampleState "Some (Remote 0)"
         "Error PlainError ''exit status 1''" ?s1 ?s2]
       example_clone_ok_script_fails x
  have r: "InstallAppStudioPreviewMode exampleInstall scriptFailsHost exampleState =
            (Returned (Some (Error PlainError ''exit status 1'')),
             ?s2\<lparr>trace := trace ?s1 @
                [GenerateRandomString 4,
                 ExecuteCommand ''hack/bootstrap-cluster.sh'' previewInstallArgs
                   (InfraDeploymentsCloneDir exampleInstall)]\<rparr>)"
    by blast
  show "fst (InstallAppStudioPreviewMode exampleInstall scriptFailsHost exampleState) =
          Returned (Some (Error PlainError ''exit status 1''))"
    by (simp add: r)
  show "trace (snd (InstallAppStudioPreviewMode exampleInstall scriptFailsHost exampleState)) =
       [OsStat ''/work/tmp/infra-deployments'',
        KlogInfo (cloneLogLine exampleInstall),
        GitPlainClone ''/work/tmp/infra-deployments'' False (cloneOptions exampleInstall),
        CreateRemote (Some (Repository 0)) (forkRemoteConfig exampleInstall),
        GenerateRandomString 4,
        ExecuteCommand ''hack/bootstrap-cluster.sh'' [''preview'', ''--keycloak'', ''--toolchain'']
          ''/work/tmp/infra-deployments'']"
    by (simp add: r example_clone_dir previewInstallArgs_def)
next
  let ?s1 = "exampleState\<lparr>trace :=
        [OsStat ''/work/tmp/infra-deployments'',
         KlogInfo (cloneLogLine exampleInstall),
         GitPlainClone ''/work/tmp/infra-deployments'' False (cloneOptions exampleInstall),
         CreateRemote (Some (Repository 0)) (forkRemoteConfig exampleInstall)]\<rparr>"
  let ?s2 = "setInstallationEnvironments fetchFailsInstall exampleHost ?s1"
  let ?s3 = "emit (ExecuteCommand ''hack/bootstrap-cluster.sh'' previewInstallArgs
                     (InfraDeploymentsCloneDir fetchFailsInstall)) ?s2"
  have x: "utils_ExecuteCommandInASpecificDirectory exampleHost (trace ?s2) (env ?s2)
             ''hack/bootstrap-cluster.sh'' previewInstallArgs (InfraDeploymentsCloneDir fetchFailsInstall)
           = None"
    by (simp add: exampleHost_def)
  from install_fail_fast [of fetchFailsInstall exampleHost exampleState "Some (Remote 0)" _ ?s1 ?s2 ?s3]
       example_clone_ok_fetch_fails x
  have r: "InstallAppStudioPreviewMode fetchFailsInstall exampleHost exampleState =
             createE2EQuaySecret fetchFailsInstall exampleHost
               (snd (addSPIOauthRedirectProxyUrl fetchFailsInstall exampleHost ?s3))"
    by blast
  have q: "QuayToken fetchFailsInstall = ''eyJhIjoxfQ==''"
    by (simp add: fetchFailsInstall_def exampleInstall_def)
  have e: "env (snd (addSPIOauthRedirectProxyUrl fetchFailsInstall exampleHost ?s3)) ''QUAY_TOKEN''
           = Some ''eyJhIjoxfQ==''"
    by (simp add: addSPIOauthRedirectProxyUrl_env emit_def env_QUAY_TOKEN q)
  show "fst (InstallAppStudioPreviewMode fetchFailsInstall exampleHost exampleState) = Returned None"
    unfolding r by (rule example_secret_step [OF e]) simp
qed

text \<open>
  C10. When the clone step returned no error and the bootstrap command succeeded, the
  fixup runs first and returns normally, leaving the environment as it found it, and the
  installation returns exactly what \<open>createE2EQuaySecret\<close> returns when started in the
  state the fixup left: the events of the fixup precede those of the secret step, and
  the fixup contributes no value to the result.
\<close>

theorem fixup_precedes_secret_result:
  assumes "cloneInfraDeployments i h s = (Returned (remote, None), s1)"
    and "s2 = setInstallationEnvironments i h s1"
    and "utils_ExecuteCommandInASpecificDirectory h (trace s2) (env s2)
           ''hack/bootstrap-cluster.sh'' previewInstallArgs (InfraDeploymentsCloneDir i) = None"
    and "s3 = emit (ExecuteCommand ''hack/bootstrap-cluster.sh'' previewInstallArgs
                      (InfraDeploymentsCloneDir i)) s2"
  shows "\<exists>s4 fixup_events secret_events.
           addSPIOauthRedirectProxyUrl i h s3 = (Returned (), s4)
         \<and> env s4 = env s3
         \<and> trace s4 = trace s3 @ fixup_events
         \<and> InstallAppStudioPreviewMode i h s = createE2EQuaySecret i h s4
         \<and> trace (snd (InstallAppStudioPreviewMode i h s)) = trace s3 @ fixup_events @ secret_events"
proof -
  let ?s4 = "snd (addSPIOauthRedirectProxyUrl i h s3)"
  have a: "addSPIOauthRedirectProxyUrl i h s3 = (Returned (), ?s4)"
    by (rule addSPIOauthRedirectProxyUrl_pair)
  have b: "env ?s4 = env s3"
    by (rule addSPIOauthRedirectProxyUrl_env)
  obtain fx where c: "trace ?s4 = trace s3 @ fx"
    using addSPIOauthRedirectProxyUrl_trace by blast
  have d: "InstallAppStudioPreviewMode i h s = createE2EQuaySecret i h ?s4"
    using assms(3) unfolding install_after_clone [OF assms(1)] assms(2) assms(4) by simp
  obtain sx where e: "trace (snd (createE2EQuaySecret i h ?s4)) = trace ?s4 @ sx"
    using createE2EQuaySecret_trace by blast
  have f: "trace (snd (InstallAppStudioPreviewMode i h s)) = trace s3 @ fx @ sx"
    by (simp add: d e c)
  from a b c d f show ?thesis by blast
qed

theorem fixup_precedes_secret_result_witness:
  "fst (InstallAppStudioPreviewMode exampleInstall exampleHost exampleState) = Returned None"
proof -
  let ?s1 = "exampleState\<lparr>trace :=
        [OsStat ''/work/tmp/infra-deployments'',
         KlogInfo (cloneLogLine exampleInstall),
         GitPlainClone ''/work/tmp/infra-deployments'' False (cloneOptions exampleInstall),
         CreateRemote (Some (Repository 0)) (forkRemoteConfig exampleInstall)]\<rparr>"
  let ?s2 = "setInstallationEnvironments exampleInstall exampleHost ?s1"
  let ?s3 = "emit (ExecuteCommand ''hack/bootstrap-cluster.sh'' previewInstallArgs
                     (InfraDeploymentsCloneDir exampleInstall)) ?s2"
  have h2: "?s2 = setInstallationEnvironments exampleInstall exampleHost ?s1" by (rule refl)
  have h3: "utils_ExecuteCommandInASpecificDirectory exampleHost (trace ?s2) (env ?s2)
             ''hack/bootstrap-cluster.sh'' previewInstallArgs (InfraDeploymentsCloneDir exampleInstall)
           = None"
    by (simp add: exampleHost_def)
  have h4: "?s3 = emit (ExecuteCommand ''hack/bootstrap-cluster.sh'' previewInstallArgs
                     (InfraDeploymentsCloneDir exampleInstall)) ?s2" by (rule refl)
  from fixup_precedes_secret_result [OF example_clone_ok h2 h3 h4]
  obtain s4 where
    e: "env s4 = env ?s3"
    and r: "InstallAppStudioPreviewMode exampleInstall exampleHost exampleState =
              createE2EQuaySecret exampleInstall exampleHost s4"
    by blast
  have q: "QuayToken exampleInstall = ''eyJhIjoxfQ==''"
    by (simp add: exampleInstall_def)
  have t: "env s4 ''QUAY_TOKEN'' = Some ''eyJhIjoxfQ==''"
    by (simp add: e emit_def env_QUAY_TOKEN q)
  have k: "KubernetesClient exampleInstall = exampleClient"
    by (simp add: exampleInstall_def)
  show ?thesis
    unfolding r by (rule example_secret_step [OF t]) (simp add: k)
qed

end
